theory Spec2Isabelle
  imports Complex_Main
begin

section \<open>Musify web client: the job monitor of \<open>frontend/src/app/page.tsx\<close> and \<open>lib/api.ts\<close>\<close>

text \<open>
  The client is a React component \<open>Home\<close> holding five state variables, two HTTP helpers
  and a helper that builds the download link. The component's state is a record, each
  \<open>set...\<close> call is a record update, and every handler is a function from the state to
  the state. An \<open>await\<close> splits a handler into the part that runs up to the request and
  the part that runs when the reply arrives; the reply is an argument of the second part.
  JavaScript strings are lists of characters, \<open>string | null\<close> is \<open>string option\<close>.
  A character outside ASCII is several characters of the model, none of them in
  \<open>[a-zA-Z0-9]\<close>, as its code units are not in JavaScript. The \<open>song_count\<close> of a snapshot is
  an integer, and arithmetic on numbers is exact.
\<close>

subsection \<open>JavaScript truthiness of \<open>string | null\<close>\<close>

definition truthy :: "string option \<Rightarrow> bool" where
  \<comment> \<open>\<open>null\<close>, \<open>undefined\<close> and the empty string are falsy\<close>
  "truthy v = (case v of None \<Rightarrow> False | Some x \<Rightarrow> x \<noteq> [])"

definition js_or :: "string option \<Rightarrow> string \<Rightarrow> string" where
  \<comment> \<open>\<open>v || d\<close>\<close>
  "js_or v d = (case v of None \<Rightarrow> d | Some x \<Rightarrow> if x = [] then d else x)"

subsection \<open>Regular expressions, as far as \<open>isValidSpotifyUrl\<close> uses them\<close>

datatype regex =
    Lit string
  | Alt regex regex
  | Seq regex regex
  | PlusClass "(char \<times> char) list"

definition in_class :: "(char \<times> char) list \<Rightarrow> char \<Rightarrow> bool" where
  \<comment> \<open>a character class \<open>[a-zA-Z0-9]\<close> is a list of code point ranges\<close>
  "in_class rs c =
     list_ex (\<lambda>(lo, hi). (of_char lo :: nat) \<le> of_char c \<and> (of_char c :: nat) \<le> of_char hi) rs"

fun rx_match :: "regex \<Rightarrow> string \<Rightarrow> string list" where
  \<comment> \<open>backtracking matcher: every way of matching a prefix of the input, as the rest of
      the input that is left over, in the order the engine tries them (\<open>+\<close> is greedy)\<close>
  "rx_match (Lit l) s = (if take (length l) s = l then [drop (length l) s] else [])"
| "rx_match (Alt a b) s = rx_match a s @ rx_match b s"
| "rx_match (Seq a b) s = concat (map (rx_match b) (rx_match a s))"
| "rx_match (PlusClass rs) s =
     map (\<lambda>k. drop k s) (rev [1 ..< Suc (length (takeWhile (in_class rs) s))])"

definition rx_test :: "regex \<Rightarrow> string \<Rightarrow> bool" where
  \<comment> \<open>\<open>/^r/.test(s)\<close>: anchored at the start of the input, not at its end\<close>
  "rx_test r s = (rx_match r s \<noteq> [])"

subsection \<open>Data model (\<open>lib/api.ts\<close>, \<open>page.tsx\<close> lines 10 to 17)\<close>

record progress_entry =
  song :: string
  status :: string
  message :: string

datatype job_status = Pending | JobDownloading | JobCompleted | JobError

record JobStatus =
  job_id :: string
  status :: job_status
  progress :: "progress_entry list"
  song_count :: int
  download_url :: "string option"
  error :: "string option"

record DownloadResponse =
  job_id :: string
  message :: string

datatype AppState = Idle | Loading | Downloading | Completed | Error

record session =
  url :: string
  state :: AppState
  jobId :: "string option"
  status :: "JobStatus option"
  error :: "string option"

definition initial :: session where
  \<comment> \<open>the five \<open>useState\<close> initial values\<close>
  "initial = \<lparr>url = [], state = Idle, jobId = None, session.status = None, session.error = None\<rparr>"

definition setUrl :: "string \<Rightarrow> session \<Rightarrow> session" where
  "setUrl v s = s\<lparr>url := v\<rparr>"

definition setState :: "AppState \<Rightarrow> session \<Rightarrow> session" where
  "setState v s = s\<lparr>state := v\<rparr>"

definition setJobId :: "string option \<Rightarrow> session \<Rightarrow> session" where
  "setJobId v s = s\<lparr>jobId := v\<rparr>"

definition setStatus :: "JobStatus option \<Rightarrow> session \<Rightarrow> session" where
  "setStatus v s = s\<lparr>session.status := v\<rparr>"

definition setError :: "string option \<Rightarrow> session \<Rightarrow> session" where
  "setError v s = s\<lparr>session.error := v\<rparr>"

subsection \<open>The HTTP helpers of \<open>lib/api.ts\<close>\<close>

text \<open>
  What \<open>fetch\<close> and \<open>response.json()\<close> can do is the argument of each helper: the
  request fails before any response (\<open>fetch\<close> rejects with an \<open>Error\<close>), or a response
  arrives with \<open>response.ok\<close> true or false and a body that parses as JSON or does not
  (\<open>response.json()\<close> rejects with an \<open>Error\<close>). The body of a failed creation has no
  declared type and is read only through \<open>error.detail\<close>: on a body that is JSON \<open>null\<close> the
  read throws a \<open>TypeError\<close>, whose message is the engine's; on any other body it gives
  \<open>undefined\<close> (no such field), a string, or a value of another kind, which the code observes
  only through its truthiness and its conversion to a string. A value thrown is an
  \<open>Error\<close> with its message, or something that is not an \<open>Error\<close>.
\<close>

datatype js_value = Undefined | Str string | NonString bool string

datatype err_body = NullBody string | Body js_value

datatype 'a parsed = Json 'a | ParseError string

datatype 'a http_reply =
    FetchFailed string
  | Ok2xx "'a parsed"
  | NotOk "err_body parsed"

datatype thrown = ErrorObj string | NonError

datatype request = Post string string | Get string

definition API_URL :: "string option \<Rightarrow> string" where
  \<comment> \<open>\<open>process.env.NEXT_PUBLIC_API_URL || 'http://localhost:8000'\<close>\<close>
  "API_URL env = js_or env ''http://localhost:8000''"

definition startDownload_request :: "string \<Rightarrow> string \<Rightarrow> request" where
  \<comment> \<open>the body is \<open>JSON.stringify({ url })\<close>; the model keeps the url\<close>
  "startDownload_request api u = Post (api @ ''/api/download'') u"

definition error_message_or :: "js_value \<Rightarrow> string \<Rightarrow> string" where
  \<comment> \<open>the message of \<open>new Error(v || d)\<close>: \<open>||\<close> keeps a truthy \<open>v\<close>, and the constructor
      converts a value that is not a string\<close>
  "error_message_or v d =
     (case v of
        Undefined \<Rightarrow> d
      | Str x \<Rightarrow> if x = [] then d else x
      | NonString t x \<Rightarrow> if t then x else d)"

fun startDownload :: "DownloadResponse http_reply \<Rightarrow> thrown + DownloadResponse" where
  "startDownload (FetchFailed m) = Inl (ErrorObj m)"
| "startDownload (NotOk (ParseError m)) = Inl (ErrorObj m)"
| "startDownload (NotOk (Json (NullBody m))) = Inl (ErrorObj m)"
| "startDownload (NotOk (Json (Body v))) =
     Inl (ErrorObj (error_message_or v ''Failed to start download''))"
| "startDownload (Ok2xx (ParseError m)) = Inl (ErrorObj m)"
| "startDownload (Ok2xx (Json r)) = Inr r"

definition getJobStatus_request :: "string \<Rightarrow> string \<Rightarrow> request" where
  "getJobStatus_request api j = Get (api @ ''/api/status/'' @ j)"

fun getJobStatus :: "JobStatus http_reply \<Rightarrow> thrown + JobStatus" where
  "getJobStatus (FetchFailed m) = Inl (ErrorObj m)"
| "getJobStatus (NotOk b) = Inl (ErrorObj ''Failed to get job status'')"
| "getJobStatus (Ok2xx (ParseError m)) = Inl (ErrorObj m)"
| "getJobStatus (Ok2xx (Json j)) = Inr j"

definition getDownloadUrl :: "string \<Rightarrow> string \<Rightarrow> string" where
  "getDownloadUrl api j = api @ ''/api/download/'' @ j @ ''/zip''"

subsection \<open>The handlers of \<open>Home\<close>\<close>

definition spotify_regex :: regex where
  \<comment> \<open>\<open>/^https:\/\/open\.spotify\.com\/(playlist|album|track)\/[a-zA-Z0-9]+/\<close>\<close>
  "spotify_regex =
     Seq (Lit ''https://open.spotify.com/'')
      (Seq (Alt (Lit ''playlist'') (Alt (Lit ''album'') (Lit ''track'')))
        (Seq (Lit ''/'')
          (PlusClass [(CHR ''a'', CHR ''z''), (CHR ''A'', CHR ''Z''), (CHR ''0'', CHR ''9'')])))"

definition isValidSpotifyUrl :: "string \<Rightarrow> bool" where
  "isValidSpotifyUrl u = rx_test spotify_regex u"

definition validation_message :: string where
  "validation_message = ''Please enter a valid Spotify playlist, album, or track URL''"

definition handleSubmit_begin :: "string \<Rightarrow> session \<Rightarrow> session \<times> request list" where
  \<comment> \<open>lines 24 to 34, up to the \<open>await\<close>: the new state and the requests sent\<close>
  "handleSubmit_begin api s =
     (if \<not> isValidSpotifyUrl (url s) then (setError (Some validation_message) s, [])
      else (setState Loading (setError None s), [startDownload_request api (url s)]))"

definition handleSubmit_resume :: "DownloadResponse http_reply \<Rightarrow> session \<Rightarrow> session" where
  \<comment> \<open>lines 34 to 40, from the \<open>await\<close> on\<close>
  "handleSubmit_resume reply s =
     (case startDownload reply of
        Inr response \<Rightarrow> setState Downloading (setJobId (Some (DownloadResponse.job_id response)) s)
      | Inl err \<Rightarrow>
          setState Error
            (setError (Some (case err of ErrorObj m \<Rightarrow> m | NonError \<Rightarrow> ''Failed to start download'')) s))"

definition handleSubmit :: "string \<Rightarrow> DownloadResponse http_reply \<Rightarrow> session \<Rightarrow> session" where
  \<comment> \<open>the whole handler, when nothing else happens while the request is in flight\<close>
  "handleSubmit api reply s =
     (case handleSubmit_begin api s of
        (s', []) \<Rightarrow> s'
      | (s', _ # _) \<Rightarrow> handleSubmit_resume reply s')"

definition pollStatus_begin :: "string \<Rightarrow> string option \<Rightarrow> request list" where
  \<comment> \<open>lines 44 to 47: \<open>jobId\<close> is the value the callback was created with\<close>
  "pollStatus_begin api j =
     (case j of
        None \<Rightarrow> []
      | Some x \<Rightarrow> if \<not> truthy j then [] else [getJobStatus_request api x])"

definition pollStatus_resume :: "JobStatus http_reply \<Rightarrow> session \<Rightarrow> session" where
  \<comment> \<open>lines 47 to 59, from the \<open>await\<close> on\<close>
  "pollStatus_resume reply s =
     (case getJobStatus reply of
        Inr jobStatus \<Rightarrow>
          (let s1 = setStatus (Some jobStatus) s in
           if JobStatus.status jobStatus = JobCompleted then setState Completed s1
           else if JobStatus.status jobStatus = JobError then
             setState Error (setError (Some (js_or (JobStatus.error jobStatus) ''Download failed'')) s1)
           else s1)
      | Inl err \<Rightarrow> setState Error (setError (Some ''Failed to check status'') s))"

definition pollStatus :: "JobStatus http_reply \<Rightarrow> session \<Rightarrow> session" where
  \<comment> \<open>one call of the callback, when the reply arrives before anything else happens\<close>
  "pollStatus reply s = (if \<not> truthy (jobId s) then s else pollStatus_resume reply s)"

definition polling :: "session \<Rightarrow> bool" where
  \<comment> \<open>lines 62 to 67: the effect installs the interval unless
      \<open>state !== 'downloading' || !jobId\<close>\<close>
  "polling s = (\<not> (state s \<noteq> Downloading \<or> \<not> truthy (jobId s)))"

definition handleDownload :: "string \<Rightarrow> session \<Rightarrow> string list" where
  \<comment> \<open>lines 69 to 73: the addresses handed to \<open>window.open\<close>\<close>
  "handleDownload api s =
     (case jobId s of
        None \<Rightarrow> []
      | Some j \<Rightarrow> if truthy (jobId s) then [getDownloadUrl api j] else [])"

definition handleReset :: "session \<Rightarrow> session" where
  "handleReset s = setError None (setStatus None (setJobId None (setState Idle (setUrl [] s))))"

subsection \<open>The page as an event machine\<close>

text \<open>
  The events the component reacts to: typing into the input, submitting the form, the
  reply to the creation request, a tick of the polling interval together with its reply,
  the reply of an earlier tick arriving late, and the reset button.
\<close>

datatype event =
    Typed string
  | Submit
  | CreateReply "DownloadResponse http_reply"
  | PollTick "JobStatus http_reply"
  | LateReply "JobStatus http_reply"
  | Reset

fun step :: "string \<Rightarrow> event \<Rightarrow> session \<Rightarrow> session" where
  "step api (Typed v) s = setUrl v s"
| "step api Submit s = fst (handleSubmit_begin api s)"
| "step api (CreateReply r) s = handleSubmit_resume r s"
| "step api (PollTick r) s = (if polling s then pollStatus r s else s)"
| "step api (LateReply r) s = pollStatus_resume r s"
| "step api Reset s = handleReset s"

fun run :: "string \<Rightarrow> event list \<Rightarrow> session \<Rightarrow> session" where
  "run api [] s = s"
| "run api (e # es) s = run api es (step api e s)"


fun requests :: "string \<Rightarrow> event \<Rightarrow> session \<Rightarrow> request list" where
  \<comment> \<open>the requests an event sends: a tick of the interval calls \<open>pollStatus\<close>, whose
      \<open>jobId\<close> is the one of the render that installed the interval\<close>
  "requests api Submit s = snd (handleSubmit_begin api s)"
| "requests api (PollTick r) s = (if polling s then pollStatus_begin api (jobId s) else [])"
| "requests api (Typed v) s = []"
| "requests api (CreateReply r) s = []"
| "requests api (LateReply r) s = []"
| "requests api Reset s = []"




fun offered :: "event \<Rightarrow> nat \<Rightarrow> session \<Rightarrow> bool" where
  \<comment> \<open>what the rendered page lets happen, given the number of creation requests in
      flight: the form is shown in idle, loading and error (line 101), its input is
      disabled in loading (line 113), its button in loading and on an empty url (line 123);
      the reset button is shown in completed only (line 187); a creation reply arrives for
      a creation request in flight, whatever the state has become; the interval runs while
      polling; the reply of an earlier tick may arrive at any time\<close>
  "offered (Typed v) n s = (state s = Idle \<or> state s = Error)"
| "offered Submit n s = ((state s = Idle \<or> state s = Error) \<and> url s \<noteq> [])"
| "offered (CreateReply r) n s = (0 < n)"
| "offered (PollTick r) n s = polling s"
| "offered (LateReply r) n s = True"
| "offered Reset n s = (state s = Completed)"

fun in_flight :: "string \<Rightarrow> event \<Rightarrow> nat \<Rightarrow> session \<Rightarrow> nat" where
  \<comment> \<open>the creation requests in flight after an event\<close>
  "in_flight api Submit n s = n + length (requests api Submit s)"
| "in_flight api (CreateReply r) n s = n - 1"
| "in_flight api (Typed v) n s = n"
| "in_flight api (PollTick r) n s = n"
| "in_flight api (LateReply r) n s = n"
| "in_flight api Reset n s = n"

fun run_in_flight :: "string \<Rightarrow> event list \<Rightarrow> nat \<Rightarrow> session \<Rightarrow> session option" where
  "run_in_flight api [] n s = Some s"
| "run_in_flight api (e # es) n s =
     (if offered e n s then run_in_flight api es (in_flight api e n s) (step api e s) else None)"

definition run_offered :: "string \<Rightarrow> event list \<Rightarrow> session \<Rightarrow> session option" where
  \<comment> \<open>\<open>run\<close> from a page with no request in flight, refusing a trace with an event the
      page does not offer\<close>
  "run_offered api evs s = run_in_flight api evs 0 s"

definition progress_value :: "JobStatus option \<Rightarrow> real" where
  \<comment> \<open>line 150, the \<open>value\<close> of the progress bar, in percent; JavaScript numbers are taken
      as exact reals\<close>
  "progress_value st =
     (case st of
        None \<Rightarrow> 0
      | Some j \<Rightarrow> real (length (progress j)) / real_of_int (max (song_count j) 1) * 100)"

subsection \<open>Notions used to state the properties\<close>

fun lang :: "regex \<Rightarrow> string set" where
  \<comment> \<open>the strings a regular expression matches in full\<close>
  "lang (Lit l) = {l}"
| "lang (Alt a b) = lang a \<union> lang b"
| "lang (Seq a b) = {p @ q | p q. p \<in> lang a \<and> q \<in> lang b}"
| "lang (PlusClass rs) = {p. p \<noteq> [] \<and> list_all (in_class rs) p}"

definition alphanumeric :: "char \<Rightarrow> bool" where
  \<comment> \<open>a letter \<open>a\<close> to \<open>z\<close> or \<open>A\<close> to \<open>Z\<close>, or a digit\<close>
  "alphanumeric c =
     in_class [(CHR ''a'', CHR ''z''), (CHR ''A'', CHR ''Z''), (CHR ''0'', CHR ''9'')] c"

definition spotify_reference_exact :: "string \<Rightarrow> bool" where
  \<comment> \<open>the shape in the specification's words: \<open>https://open.spotify.com/\<close>, one of the
      three path segments, a slash, a non-empty alphanumeric identifier, and nothing else\<close>
  "spotify_reference_exact u =
     list_ex
       (\<lambda>kind.
          let p = ''https://open.spotify.com/'' @ kind @ ''/''; ident = drop (length p) u
          in take (length p) u = p \<and> ident \<noteq> [] \<and> list_all alphanumeric ident)
       [''playlist'', ''album'', ''track'']"

definition idle_without_job :: "session \<Rightarrow> bool" where
  \<comment> \<open>an idle session holds no job identifier\<close>
  "idle_without_job s = (state s \<noteq> Idle \<or> jobId s = None)"

section \<open>Properties\<close>

subsection \<open>What the matcher accepts\<close>

lemma lit_iff: "(take (length l) s = l \<and> t = drop (length l) s) \<longleftrightarrow> s = l @ t"
  by (metis append_eq_conv_conj)

lemma plus_sound:
  assumes "t \<in> set (rx_match (PlusClass rs) s)"
  shows "\<exists>p. p \<noteq> [] \<and> list_all (in_class rs) p \<and> s = p @ t"
proof -
  let ?tw = "takeWhile (in_class rs) s"
  from assms obtain k where k: "1 \<le> k" "k \<le> length ?tw" "t = drop k s"
    by auto
  have "take k s = take k (?tw @ dropWhile (in_class rs) s)"
    by (simp only: takeWhile_dropWhile_id)
  also have "\<dots> = take k ?tw"
    using k(2) by (simp del: takeWhile_dropWhile_id)
  finally have tk: "take k s = take k ?tw" .
  have "set (take k s) \<subseteq> set ?tw"
    unfolding tk by (rule set_take_subset)
  then have all: "list_all (in_class rs) (take k s)"
    by (auto simp: list_all_iff dest: set_takeWhileD)
  have "length ?tw \<le> length s"
    by (rule length_takeWhile_le)
  with k have ne: "take k s \<noteq> []" by auto
  have "s = take k s @ t" using k(3) by simp
  with all ne show ?thesis by blast
qed

lemma plus_complete:
  assumes "p \<noteq> []" "list_all (in_class rs) p"
  shows "t \<in> set (rx_match (PlusClass rs) (p @ t))"
proof -
  have "takeWhile (in_class rs) (p @ t) = p @ takeWhile (in_class rs) t"
    using assms(2) by (simp add: list_all_iff)
  then have le: "length p \<le> length (takeWhile (in_class rs) (p @ t))" by simp
  have ge: "1 \<le> length p" using assms(1) by (cases p) auto
  have "drop (length p) (p @ t) = t" by simp
  then have "t \<in> (\<lambda>k. drop k (p @ t)) ` {1 ..< Suc (length (takeWhile (in_class rs) (p @ t)))}"
    using le ge by (metis atLeastLessThan_iff image_eqI less_Suc_eq_le)
  then show ?thesis
    by (simp only: rx_match.simps set_map set_rev set_upt)
qed

lemma rx_match_iff: "t \<in> set (rx_match r s) \<longleftrightarrow> (\<exists>p. p \<in> lang r \<and> s = p @ t)"
proof (induction r arbitrary: s t)
  case (Lit l)
  show ?case using lit_iff [of l s t] by auto
next
  case (Alt a b)
  then show ?case by auto
next
  case (Seq a b)
  have "t \<in> set (rx_match (Seq a b) s) \<longleftrightarrow>
        (\<exists>m. m \<in> set (rx_match a s) \<and> t \<in> set (rx_match b m))"
    by auto
  also have "\<dots> \<longleftrightarrow> (\<exists>m p q. p \<in> lang a \<and> s = p @ m \<and> q \<in> lang b \<and> m = q @ t)"
    using Seq.IH by blast
  also have "\<dots> \<longleftrightarrow> (\<exists>p. p \<in> lang (Seq a b) \<and> s = p @ t)"
    by fastforce
  finally show ?case .
next
  case (PlusClass rs)
  show ?case using plus_sound [of t rs s] plus_complete [of _ rs t] by auto
qed

lemma rx_test_iff: "rx_test r s \<longleftrightarrow> (\<exists>p t. p \<in> lang r \<and> s = p @ t)"
proof -
  have "rx_test r s \<longleftrightarrow> (\<exists>t. t \<in> set (rx_match r s))"
    unfolding rx_test_def by (cases "rx_match r s") auto
  then show ?thesis using rx_match_iff by blast
qed

lemma isValidSpotifyUrl_iff:
  "isValidSpotifyUrl u \<longleftrightarrow>
     (\<exists>kind ident rest.
        u = ''https://open.spotify.com/'' @ kind @ ''/'' @ ident @ rest \<and>
        (kind = ''playlist'' \<or> kind = ''album'' \<or> kind = ''track'') \<and>
        ident \<noteq> [] \<and> list_all alphanumeric ident)"
  (is "?l \<longleftrightarrow> ?r")
proof
  assume ?l
  then obtain p t where p: "p \<in> lang spotify_regex" and u: "u = p @ t"
    unfolding isValidSpotifyUrl_def rx_test_iff by blast
  from p obtain k q where kq: "p = ''https://open.spotify.com/'' @ (k @ (''/'' @ q))"
      "k \<in> lang (Alt (Lit ''playlist'') (Alt (Lit ''album'') (Lit ''track'')))"
      "q \<in> lang (PlusClass [(CHR ''a'', CHR ''z''), (CHR ''A'', CHR ''Z''), (CHR ''0'', CHR ''9'')])"
    unfolding spotify_regex_def lang.simps by blast
  from kq(2) have k: "k = ''playlist'' \<or> k = ''album'' \<or> k = ''track''" by auto
  from kq(3) have q: "q \<noteq> []" "list_all alphanumeric q"
    by (simp_all add: alphanumeric_def[abs_def])
  have "u = ''https://open.spotify.com/'' @ k @ ''/'' @ q @ t"
    unfolding u kq(1) by (simp only: append_assoc)
  with k q show ?r by blast
next
  assume ?r
  then obtain kind ident rest where h:
    "u = ''https://open.spotify.com/'' @ kind @ ''/'' @ ident @ rest"
    "kind = ''playlist'' \<or> kind = ''album'' \<or> kind = ''track''"
    "ident \<noteq> []" "list_all alphanumeric ident" by blast
  let ?p = "''https://open.spotify.com/'' @ kind @ ''/'' @ ident"
  have "kind \<in> lang (Alt (Lit ''playlist'') (Alt (Lit ''album'') (Lit ''track'')))"
    using h(2) by auto
  moreover have "ident \<in> lang (PlusClass [(CHR ''a'', CHR ''z''), (CHR ''A'', CHR ''Z''), (CHR ''0'', CHR ''9'')])"
    using h(3,4) by (simp add: alphanumeric_def[abs_def])
  ultimately have "?p \<in> lang spotify_regex"
    unfolding spotify_regex_def lang.simps by blast
  moreover have "u = ?p @ rest" using h(1) by (simp only: append_assoc)
  ultimately show ?l unfolding isValidSpotifyUrl_def rx_test_iff by blast
qed

lemmas session_defs = setUrl_def setState_def setJobId_def setStatus_def setError_def

lemmas valid_eval = isValidSpotifyUrl_def rx_test_def spotify_regex_def in_class_def

lemmas machine_eval = handleSubmit_begin_def handleSubmit_resume_def pollStatus_def
  pollStatus_resume_def polling_def truthy_def js_or_def handleReset_def initial_def
  startDownload_request_def Let_def run_offered_def error_message_or_def

subsection \<open>Progress display\<close>

text \<open>
  Claim C1, as stated: for a cached snapshot with \<open>n\<close> progress entries and song count
  \<open>c\<close> the displayed completion ratio is \<open>min(1, n / max(c, 1))\<close>. Line 150 computes
  \<open>n / max(c, 1) * 100\<close> and applies no upper bound: with two entries and a song count
  that is still 0 the ratio handed to the progress bar is 2, where the claim says 1.
\<close>

theorem progress_ratio_exceeds_one:
  "progress_value (Some \<lparr>JobStatus.job_id = ''J1'', JobStatus.status = JobDownloading,
      progress = [\<lparr>song = ''A'', progress_entry.status = ''completed'', progress_entry.message = []\<rparr>,
                  \<lparr>song = ''B'', progress_entry.status = ''completed'', progress_entry.message = []\<rparr>],
      song_count = 0, download_url = None, JobStatus.error = None\<rparr>) / 100 = 2 \<and>
   min 1 (real 2 / real_of_int (max 0 1)) = 1"
  by (simp add: progress_value_def)

text \<open>
  Claim C1, amended: for every cached snapshot with \<open>n\<close> progress entries and song count
  \<open>c\<close> the displayed completion ratio is \<open>n / max(c, 1)\<close>; the divisor is at least 1, so
  there is no division by zero; the ratio equals \<open>min(1, n / max(c, 1))\<close> whenever
  \<open>n \<le> max(c, 1)\<close>; with \<open>c = 10\<close> and \<open>n = 4\<close> it is 0.4, with \<open>c = 0\<close> and \<open>n = 0\<close> it
  is 0.
\<close>

theorem progress_ratio:
  "progress_value (Some j) / 100 = real (length (progress j)) / real_of_int (max (song_count j) 1) \<and>
   0 < max (song_count j) 1 \<and>
   (int (length (progress j)) \<le> max (song_count j) 1 \<longrightarrow>
      progress_value (Some j) / 100 =
        min 1 (real (length (progress j)) / real_of_int (max (song_count j) 1))) \<and>
   (length (progress j) = 4 \<and> song_count j = 10 \<longrightarrow> progress_value (Some j) / 100 = 4 / 10) \<and>
   (length (progress j) = 0 \<and> song_count j = 0 \<longrightarrow> progress_value (Some j) / 100 = 0)"
proof -
  let ?n = "real (length (progress j))" and ?m = "real_of_int (max (song_count j) 1)"
  have m: "1 \<le> ?m" by simp
  have p: "0 < max (song_count j) 1" by (simp add: max_def)
  have r: "progress_value (Some j) / 100 = ?n / ?m" by (simp add: progress_value_def)
  have c: "progress_value (Some j) / 100 = min 1 (?n / ?m)"
    if "int (length (progress j)) \<le> max (song_count j) 1"
  proof -
    have le: "?n \<le> ?m" using that by (metis of_int_le_iff of_int_of_nat_eq)
    have "0 < ?m" using m by linarith
    then have "?n / ?m \<le> 1" using le by (simp only: divide_le_eq_1_pos)
    then show ?thesis unfolding r by simp
  qed
  have e1: "progress_value (Some j) / 100 = 4 / 10"
    if "length (progress j) = 4 \<and> song_count j = 10"
    using that by (simp add: progress_value_def)
  have e2: "progress_value (Some j) / 100 = 0"
    if "length (progress j) = 0 \<and> song_count j = 0"
    using that by (simp add: progress_value_def)
  from r p c e1 e2 show ?thesis by blast
qed

text \<open>Claim C1 at the two snapshots of the specification: four of ten songs, and nothing known yet.\<close>

theorem progress_ratio_witness:
  "progress_value (Some \<lparr>JobStatus.job_id = ''J1'', JobStatus.status = JobDownloading,
      progress = replicate 4 \<lparr>song = ''A'', progress_entry.status = ''completed'', progress_entry.message = []\<rparr>,
      song_count = 10, download_url = None, JobStatus.error = None\<rparr>) / 100 = 4 / 10 \<and>
   progress_value (Some \<lparr>JobStatus.job_id = ''J1'', JobStatus.status = Pending,
      progress = [], song_count = 0, download_url = None, JobStatus.error = None\<rparr>) / 100 = 0"
  using
    progress_ratio [of "\<lparr>JobStatus.job_id = ''J1'', JobStatus.status = JobDownloading,
      progress = replicate 4 \<lparr>song = ''A'', progress_entry.status = ''completed'', progress_entry.message = []\<rparr>,
      song_count = 10, download_url = None, JobStatus.error = None\<rparr>"]
    progress_ratio [of "\<lparr>JobStatus.job_id = ''J1'', JobStatus.status = Pending,
      progress = [], song_count = 0, download_url = None, JobStatus.error = None\<rparr>"]
  by simp

subsection \<open>Submitting a URL\<close>

text \<open>
  Claim C2, as stated: submit accepts the input if and only if it is
  \<open>https://open.spotify.com/\<close>, one of \<open>playlist\<close>, \<open>album\<close>, \<open>track\<close>, a slash, a non-empty
  alphanumeric identifier and nothing else. The regular expression of line 20 has no
  anchor at its end: a reference followed by a query string is accepted and the
  creation request is sent.
\<close>

theorem submit_accepts_trailing_text:
  "isValidSpotifyUrl ''https://open.spotify.com/track/abc?si=1'' \<and>
   \<not> spotify_reference_exact ''https://open.spotify.com/track/abc?si=1'' \<and>
   snd (handleSubmit_begin ''http://localhost:8000''
          (setUrl ''https://open.spotify.com/track/abc?si=1'' initial)) =
     [Post ''http://localhost:8000/api/download'' ''https://open.spotify.com/track/abc?si=1'']"
  by (simp add: valid_eval spotify_reference_exact_def alphanumeric_def handleSubmit_begin_def
      session_defs initial_def startDownload_request_def)

text \<open>
  Claim C2, amended: submit accepts the input if and only if it starts with
  \<open>https://open.spotify.com/\<close>, one of \<open>playlist\<close>, \<open>album\<close>, \<open>track\<close>, a slash and a
  non-empty alphanumeric identifier; anything may follow. An accepted input clears the
  error, moves to loading and sends the creation request; every other input sends no
  request, sets the validation message and leaves the machine state as it was, so a submit
  from idle, loading or error does not end in downloading or completed.
\<close>

theorem submit_validation:
  "(isValidSpotifyUrl (url s) \<longleftrightarrow>
     (\<exists>kind ident rest.
        url s = ''https://open.spotify.com/'' @ kind @ ''/'' @ ident @ rest \<and>
        (kind = ''playlist'' \<or> kind = ''album'' \<or> kind = ''track'') \<and>
        ident \<noteq> [] \<and> list_all alphanumeric ident)) \<and>
   (isValidSpotifyUrl (url s) \<longrightarrow>
      handleSubmit_begin api s =
        (s\<lparr>state := Loading, session.error := None\<rparr>, [Post (api @ ''/api/download'') (url s)])) \<and>
   (\<not> isValidSpotifyUrl (url s) \<longrightarrow>
      snd (handleSubmit_begin api s) = [] \<and>
      session.error (fst (handleSubmit_begin api s)) = Some validation_message \<and>
      state (fst (handleSubmit_begin api s)) = state s \<and>
      handleSubmit api reply s = fst (handleSubmit_begin api s) \<and>
      (state s = Idle \<or> state s = Loading \<or> state s = Error \<longrightarrow>
         state (handleSubmit api reply s) \<noteq> Downloading \<and>
         state (handleSubmit api reply s) \<noteq> Completed))"
  using isValidSpotifyUrl_iff [of "url s"]
  by (simp add: handleSubmit_begin_def handleSubmit_def session_defs startDownload_request_def)

text \<open>Claim C2 at a playlist reference typed into a fresh page, and at an input without scheme.\<close>

theorem submit_validation_witness:
  "handleSubmit_begin ''http://localhost:8000''
      \<lparr>url = ''https://open.spotify.com/playlist/abc123'', state = Idle, jobId = None,
       session.status = None, session.error = None\<rparr> =
     (\<lparr>url = ''https://open.spotify.com/playlist/abc123'', state = Loading, jobId = None,
       session.status = None, session.error = None\<rparr>,
      [Post ''http://localhost:8000/api/download'' ''https://open.spotify.com/playlist/abc123'']) \<and>
   snd (handleSubmit_begin ''http://localhost:8000''
      \<lparr>url = ''spotify.com/playlist/abc123'', state = Error, jobId = None,
       session.status = None, session.error = None\<rparr>) = [] \<and>
   session.error (handleSubmit ''http://localhost:8000'' (FetchFailed ''offline'')
      \<lparr>url = ''spotify.com/playlist/abc123'', state = Error, jobId = None,
       session.status = None, session.error = None\<rparr>) = Some validation_message \<and>
   state (handleSubmit ''http://localhost:8000'' (FetchFailed ''offline'')
      \<lparr>url = ''spotify.com/playlist/abc123'', state = Error, jobId = None,
       session.status = None, session.error = None\<rparr>) = Error"
proof -
  let ?a = "\<lparr>url = ''https://open.spotify.com/playlist/abc123'', state = Idle, jobId = None,
       session.status = None, session.error = None\<rparr>"
  let ?b = "\<lparr>url = ''spotify.com/playlist/abc123'', state = Error, jobId = None,
       session.status = None, session.error = None\<rparr>"
  have v: "isValidSpotifyUrl (url ?a)" by (simp add: valid_eval)
  have n: "\<not> isValidSpotifyUrl (url ?b)" by (simp add: valid_eval)
  show ?thesis
    using v n submit_validation [of ?a "''http://localhost:8000''"]
      submit_validation [of ?b "''http://localhost:8000''" "FetchFailed ''offline''"]
    by (simp add: prod_eq_iff)
qed

text \<open>
  Claim C10: when submit is invoked with an input that fails the validation, the only
  field of the session that changes is the error message; the submitted URL, the machine
  state, the job identifier and the cached snapshot are as before, whatever the service
  would have replied, and no request is sent.
\<close>

theorem invalid_submit_frame:
  assumes "\<not> isValidSpotifyUrl (url s)"
  shows "url (handleSubmit api reply s) = url s \<and>
         state (handleSubmit api reply s) = state s \<and>
         jobId (handleSubmit api reply s) = jobId s \<and>
         session.status (handleSubmit api reply s) = session.status s \<and>
         session.error (handleSubmit api reply s) = Some validation_message \<and>
         handleSubmit_begin api s = (handleSubmit api reply s, [])"
  using assms by (simp add: handleSubmit_def handleSubmit_begin_def session_defs)

text \<open>Claim C10 at an \<open>http\<close> reference submitted from the error state of an earlier job.\<close>

theorem invalid_submit_frame_witness:
  "\<not> isValidSpotifyUrl ''http://open.spotify.com/track/abc'' \<and>
   handleSubmit ''http://localhost:8000''
     (Ok2xx (Json \<lparr>DownloadResponse.job_id = ''J1'', message = ''ok''\<rparr>))
     \<lparr>url = ''http://open.spotify.com/track/abc'', state = Error, jobId = Some ''J0'',
      session.status = None, session.error = Some ''Download failed''\<rparr> =
   \<lparr>url = ''http://open.spotify.com/track/abc'', state = Error, jobId = Some ''J0'',
      session.status = None, session.error = Some validation_message\<rparr>"
proof -
  let ?s = "\<lparr>url = ''http://open.spotify.com/track/abc'', state = Error, jobId = Some ''J0'',
      session.status = None, session.error = Some ''Download failed''\<rparr>"
  let ?r = "Ok2xx (Json \<lparr>DownloadResponse.job_id = ''J1'', message = ''ok''\<rparr>)"
  have n: "\<not> isValidSpotifyUrl (url ?s)" by (simp add: valid_eval)
  show ?thesis
    using n invalid_submit_frame [OF n, of "''http://localhost:8000''" ?r]
    by (cases "handleSubmit ''http://localhost:8000'' ?r ?s") simp
qed

subsection \<open>Failure of the creation request\<close>

text \<open>
  Claim C5, as stated: when the creation call fails with a response that is not 2xx and
  carries a JSON body with a \<open>detail\<close> field, the stored error message equals that detail
  string exactly. \<open>startDownload\<close> throws \<open>error.detail || 'Failed to start download'\<close>
  (line 268): a body whose \<open>detail\<close> is the empty string is answered with the generic
  message, not with the detail.
\<close>

theorem create_failure_empty_detail:
  "state (handleSubmit ''http://localhost:8000'' (NotOk (Json (Body (Str []))))
      (setUrl ''https://open.spotify.com/playlist/abc123'' initial)) = Error \<and>
   session.error (handleSubmit ''http://localhost:8000'' (NotOk (Json (Body (Str []))))
      (setUrl ''https://open.spotify.com/playlist/abc123'' initial)) = Some ''Failed to start download'' \<and>
   session.error (handleSubmit ''http://localhost:8000'' (NotOk (Json (Body (Str []))))
      (setUrl ''https://open.spotify.com/playlist/abc123'' initial)) \<noteq> Some []"
  by (simp add: handleSubmit_def machine_eval session_defs valid_eval)

text \<open>
  Claim C5, amended: a valid submit moves the machine to loading and sends the creation
  request. If the call fails with a response that is not 2xx and carries a JSON body,
  then, in whatever state the reply finds the session, the machine moves to error and
  nothing but state and error changes. The stored message equals the \<open>detail\<close> string
  exactly when \<open>detail\<close> is a string that is not empty; it is the generic message
  \<open>Failed to start download\<close> when the body is not \<open>null\<close> and \<open>detail\<close> is absent, the empty
  string or another falsy value; it is the string conversion of \<open>detail\<close> when that is a
  truthy value that is not a string; and when the body is \<open>null\<close> it is the message of the
  \<open>TypeError\<close> that reading \<open>detail\<close> throws.
\<close>

theorem create_failure_message:
  "state (handleSubmit_resume (NotOk (Json b)) s) = Error \<and>
   url (handleSubmit_resume (NotOk (Json b)) s) = url s \<and>
   jobId (handleSubmit_resume (NotOk (Json b)) s) = jobId s \<and>
   session.status (handleSubmit_resume (NotOk (Json b)) s) = session.status s \<and>
   (b = Body (Str m) \<and> m \<noteq> [] \<longrightarrow>
      session.error (handleSubmit_resume (NotOk (Json b)) s) = Some m) \<and>
   (b = Body Undefined \<or> b = Body (Str []) \<or> b = Body (NonString False m) \<longrightarrow>
      session.error (handleSubmit_resume (NotOk (Json b)) s) = Some ''Failed to start download'') \<and>
   (b = Body (NonString True m) \<longrightarrow>
      session.error (handleSubmit_resume (NotOk (Json b)) s) = Some m) \<and>
   (b = NullBody m \<longrightarrow>
      session.error (handleSubmit_resume (NotOk (Json b)) s) = Some m) \<and>
   step api (CreateReply r) s = handleSubmit_resume r s \<and>
   (isValidSpotifyUrl (url s) \<longrightarrow>
      state (fst (handleSubmit_begin api s)) = Loading \<and>
      snd (handleSubmit_begin api s) = [Post (api @ ''/api/download'') (url s)] \<and>
      handleSubmit api r s = handleSubmit_resume r (fst (handleSubmit_begin api s)))"
proof -
  have a: "state (handleSubmit_resume (NotOk (Json b)) s) = Error \<and>
      url (handleSubmit_resume (NotOk (Json b)) s) = url s \<and>
      jobId (handleSubmit_resume (NotOk (Json b)) s) = jobId s \<and>
      session.status (handleSubmit_resume (NotOk (Json b)) s) = session.status s"
    by (cases b) (simp_all add: handleSubmit_resume_def session_defs)
  have c: "b = Body (Str m) \<and> m \<noteq> [] \<longrightarrow>
      session.error (handleSubmit_resume (NotOk (Json b)) s) = Some m"
    by (simp add: handleSubmit_resume_def session_defs error_message_or_def)
  have d: "b = Body Undefined \<or> b = Body (Str []) \<or> b = Body (NonString False m) \<longrightarrow>
      session.error (handleSubmit_resume (NotOk (Json b)) s) = Some ''Failed to start download''"
    by (auto simp: handleSubmit_resume_def session_defs error_message_or_def)
  have e: "b = Body (NonString True m) \<longrightarrow>
      session.error (handleSubmit_resume (NotOk (Json b)) s) = Some m"
    by (simp add: handleSubmit_resume_def session_defs error_message_or_def)
  have f: "b = NullBody m \<longrightarrow>
      session.error (handleSubmit_resume (NotOk (Json b)) s) = Some m"
    by (simp add: handleSubmit_resume_def session_defs)
  have g: "step api (CreateReply r) s = handleSubmit_resume r s" by simp
  have h: "isValidSpotifyUrl (url s) \<longrightarrow>
      state (fst (handleSubmit_begin api s)) = Loading \<and>
      snd (handleSubmit_begin api s) = [Post (api @ ''/api/download'') (url s)] \<and>
      handleSubmit api r s = handleSubmit_resume r (fst (handleSubmit_begin api s))"
    by (simp add: handleSubmit_def handleSubmit_begin_def session_defs startDownload_request_def)
  from a c d e f g h show ?thesis by blast
qed

text \<open>
  Claim C5 at the failure scenario of the specification: the service answers
  \<open>quota exceeded\<close>; at a body without \<open>detail\<close>; and at a body that is \<open>null\<close>, whose reply
  finds the page in loading.
\<close>

theorem create_failure_message_witness:
  "isValidSpotifyUrl ''https://open.spotify.com/playlist/abc123'' \<and>
   handleSubmit ''http://localhost:8000'' (NotOk (Json (Body (Str ''quota exceeded''))))
      \<lparr>url = ''https://open.spotify.com/playlist/abc123'', state = Idle, jobId = None,
       session.status = None, session.error = None\<rparr> =
   \<lparr>url = ''https://open.spotify.com/playlist/abc123'', state = Error, jobId = None,
       session.status = None, session.error = Some ''quota exceeded''\<rparr> \<and>
   session.error (handleSubmit ''http://localhost:8000'' (NotOk (Json (Body Undefined)))
      \<lparr>url = ''https://open.spotify.com/playlist/abc123'', state = Idle, jobId = None,
       session.status = None, session.error = None\<rparr>) = Some ''Failed to start download'' \<and>
   session.error (handleSubmit_resume (NotOk (Json (NullBody ''error is null'')))
      \<lparr>url = ''https://open.spotify.com/playlist/abc123'', state = Loading, jobId = None,
       session.status = None, session.error = None\<rparr>) = Some ''error is null''"
proof -
  let ?s = "\<lparr>url = ''https://open.spotify.com/playlist/abc123'', state = Idle, jobId = None,
       session.status = None, session.error = None\<rparr>"
  let ?a = "''http://localhost:8000''"
  have v: "isValidSpotifyUrl (url ?s)" by (simp add: valid_eval)
  have l: "fst (handleSubmit_begin ?a ?s) = ?s\<lparr>state := Loading\<rparr>"
    using v by (simp add: handleSubmit_begin_def session_defs)
  show ?thesis
    using v l
      create_failure_message [of "Body (Str ''quota exceeded'')" "?s\<lparr>state := Loading\<rparr>"
        "''quota exceeded''"]
      create_failure_message [of "Body (Str ''quota exceeded'')" ?s "''quota exceeded''" ?a
        "NotOk (Json (Body (Str ''quota exceeded'')))"]
      create_failure_message [of "Body Undefined" "?s\<lparr>state := Loading\<rparr>"]
      create_failure_message [of "Body Undefined" ?s _ ?a "NotOk (Json (Body Undefined))"]
      create_failure_message [of "NullBody ''error is null''" "?s\<lparr>state := Loading\<rparr>"
        "''error is null''"]
    by (cases "handleSubmit_resume (NotOk (Json (Body (Str ''quota exceeded''))))
          (?s\<lparr>state := Loading\<rparr>)") simp
qed

subsection \<open>Polling\<close>

text \<open>
  Claim C6, as stated: on a poll tick in downloading, a reply with status \<open>error\<close> moves
  the machine to error with the service-reported message when present. \<open>pollStatus\<close>
  stores \<open>jobStatus.error || 'Download failed'\<close> (line 53): a reply whose \<open>error\<close> is the
  empty string is answered with the generic message.
\<close>

theorem poll_error_empty_message:
  "polling \<lparr>url = ''https://open.spotify.com/playlist/abc123'', state = Downloading,
       jobId = Some ''J1'', session.status = None, session.error = None\<rparr> \<and>
   session.error (pollStatus
     (Ok2xx (Json \<lparr>JobStatus.job_id = ''J1'', JobStatus.status = JobError, progress = [],
         song_count = 0, download_url = None, JobStatus.error = Some []\<rparr>))
     \<lparr>url = ''https://open.spotify.com/playlist/abc123'', state = Downloading,
       jobId = Some ''J1'', session.status = None, session.error = None\<rparr>) = Some ''Download failed'' \<and>
   session.error (pollStatus
     (Ok2xx (Json \<lparr>JobStatus.job_id = ''J1'', JobStatus.status = JobError, progress = [],
         song_count = 0, download_url = None, JobStatus.error = Some []\<rparr>))
     \<lparr>url = ''https://open.spotify.com/playlist/abc123'', state = Downloading,
       jobId = Some ''J1'', session.status = None, session.error = None\<rparr>) \<noteq> Some []"
  by (simp add: machine_eval session_defs)

text \<open>
  Claim C6, amended: on every poll tick in downloading, a reply with status \<open>error\<close> moves
  the machine to error; the stored message is the service-reported one when it is present
  and not empty, and \<open>Download failed\<close> when it is absent or empty. If the poll call fails
  (a response that is not 2xx, or no response at all) the machine moves to error with the
  message \<open>Failed to check status\<close>.
\<close>

theorem poll_error_messages:
  assumes "polling s"
  shows "(JobStatus.status js = JobError \<longrightarrow>
            state (pollStatus (Ok2xx (Json js)) s) = Error \<and>
            (JobStatus.error js = Some m \<and> m \<noteq> [] \<longrightarrow>
               session.error (pollStatus (Ok2xx (Json js)) s) = Some m) \<and>
            (JobStatus.error js = None \<or> JobStatus.error js = Some [] \<longrightarrow>
               session.error (pollStatus (Ok2xx (Json js)) s) = Some ''Download failed'')) \<and>
         state (pollStatus (NotOk b) s) = Error \<and>
         session.error (pollStatus (NotOk b) s) = Some ''Failed to check status'' \<and>
         state (pollStatus (FetchFailed e) s) = Error \<and>
         session.error (pollStatus (FetchFailed e) s) = Some ''Failed to check status'' \<and>
         step api (PollTick r) s = pollStatus r s"
  using assms
  by (auto simp: pollStatus_def pollStatus_resume_def polling_def session_defs js_or_def Let_def)

text \<open>Claim C6 at a job that the service reports as failed, with a message and without one.\<close>

theorem poll_error_messages_witness:
  "polling \<lparr>url = ''https://open.spotify.com/playlist/abc123'', state = Downloading,
       jobId = Some ''J1'', session.status = None, session.error = None\<rparr> \<and>
   session.error (pollStatus
     (Ok2xx (Json \<lparr>JobStatus.job_id = ''J1'', JobStatus.status = JobError, progress = [],
         song_count = 0, download_url = None, JobStatus.error = Some ''playlist not found''\<rparr>))
     \<lparr>url = ''https://open.spotify.com/playlist/abc123'', state = Downloading,
       jobId = Some ''J1'', session.status = None, session.error = None\<rparr>) = Some ''playlist not found'' \<and>
   session.error (pollStatus
     (Ok2xx (Json \<lparr>JobStatus.job_id = ''J1'', JobStatus.status = JobError, progress = [],
         song_count = 0, download_url = None, JobStatus.error = None\<rparr>))
     \<lparr>url = ''https://open.spotify.com/playlist/abc123'', state = Downloading,
       jobId = Some ''J1'', session.status = None, session.error = None\<rparr>) = Some ''Download failed''"
proof -
  let ?s = "\<lparr>url = ''https://open.spotify.com/playlist/abc123'', state = Downloading,
       jobId = Some ''J1'', session.status = None, session.error = None\<rparr>"
  have p: "polling ?s" by (simp add: polling_def truthy_def)
  show ?thesis
    using p
      poll_error_messages [OF p, of "\<lparr>JobStatus.job_id = ''J1'', JobStatus.status = JobError,
         progress = [], song_count = 0, download_url = None,
         JobStatus.error = Some ''playlist not found''\<rparr>" "''playlist not found''"]
      poll_error_messages [OF p, of "\<lparr>JobStatus.job_id = ''J1'', JobStatus.status = JobError,
         progress = [], song_count = 0, download_url = None, JobStatus.error = None\<rparr>"]
    by simp
qed

text \<open>
  Claim C4, as stated: a poll reply that is in flight when reset is performed is ignored
  when it arrives; applied to the reset session it leaves state, snapshot and error as they
  are. The part of \<open>pollStatus\<close> after the \<open>await\<close> (lines 48 to 58) looks at nothing but
  the reply. After a job has completed and the page has been reset, the reply of an
  earlier tick that reports \<open>completed\<close> stores its snapshot and moves the idle page to
  completed; a failed one moves it to error.
\<close>

theorem late_reply_after_reset_applied:
  "run ''http://localhost:8000''
     [Typed ''https://open.spotify.com/playlist/abc123'',
      Submit,
      CreateReply (Ok2xx (Json \<lparr>DownloadResponse.job_id = ''J1'', message = ''started''\<rparr>)),
      PollTick (Ok2xx (Json \<lparr>JobStatus.job_id = ''J1'', JobStatus.status = JobCompleted, progress = [],
         song_count = 1, download_url = None, JobStatus.error = None\<rparr>)),
      Reset] initial = initial \<and>
   run ''http://localhost:8000''
     [Typed ''https://open.spotify.com/playlist/abc123'',
      Submit,
      CreateReply (Ok2xx (Json \<lparr>DownloadResponse.job_id = ''J1'', message = ''started''\<rparr>)),
      PollTick (Ok2xx (Json \<lparr>JobStatus.job_id = ''J1'', JobStatus.status = JobCompleted, progress = [],
         song_count = 1, download_url = None, JobStatus.error = None\<rparr>)),
      Reset,
      LateReply (Ok2xx (Json \<lparr>JobStatus.job_id = ''J1'', JobStatus.status = JobCompleted, progress = [],
         song_count = 1, download_url = None, JobStatus.error = None\<rparr>))] initial =
   \<lparr>url = [], state = Completed, jobId = None,
    session.status = Some \<lparr>JobStatus.job_id = ''J1'', JobStatus.status = JobCompleted, progress = [],
         song_count = 1, download_url = None, JobStatus.error = None\<rparr>,
    session.error = None\<rparr> \<and>
   pollStatus_resume (FetchFailed ''Failed to fetch'') initial =
   \<lparr>url = [], state = Error, jobId = None, session.status = None,
    session.error = Some ''Failed to check status''\<rparr>"
  by (simp add: machine_eval session_defs valid_eval)

text \<open>
  Claim C4, amended: a poll reply that arrives after a reset or a resubmission is applied
  like any other reply. It never changes the submitted URL or the job identifier. A reply
  with a snapshot replaces the cached snapshot; it leaves state and error unchanged when
  the snapshot reports \<open>pending\<close> or \<open>downloading\<close>, moves to completed when it reports
  \<open>completed\<close>, and moves to error with the reported or the generic message when it reports
  \<open>error\<close>. A reply without a snapshot leaves the cached snapshot unchanged and moves to
  error with the message \<open>Failed to check status\<close>.
\<close>

theorem late_reply_effect:
  "url (pollStatus_resume r s) = url s \<and>
   jobId (pollStatus_resume r s) = jobId s \<and>
   (r = Ok2xx (Json js) \<longrightarrow>
      session.status (pollStatus_resume r s) = Some js \<and>
      (JobStatus.status js = Pending \<or> JobStatus.status js = JobDownloading \<longrightarrow>
         state (pollStatus_resume r s) = state s \<and>
         session.error (pollStatus_resume r s) = session.error s) \<and>
      (JobStatus.status js = JobCompleted \<longrightarrow>
         state (pollStatus_resume r s) = Completed \<and>
         session.error (pollStatus_resume r s) = session.error s) \<and>
      (JobStatus.status js = JobError \<longrightarrow>
         state (pollStatus_resume r s) = Error \<and>
         session.error (pollStatus_resume r s) =
           Some (js_or (JobStatus.error js) ''Download failed''))) \<and>
   ((\<forall>j. r \<noteq> Ok2xx (Json j)) \<longrightarrow>
      state (pollStatus_resume r s) = Error \<and>
      session.status (pollStatus_resume r s) = session.status s \<and>
      session.error (pollStatus_resume r s) = Some ''Failed to check status'')"
proof -
  have a: "url (pollStatus_resume r s) = url s \<and> jobId (pollStatus_resume r s) = jobId s"
    by (simp add: pollStatus_resume_def session_defs Let_def split: sum.splits)
  have b: "r = Ok2xx (Json js) \<longrightarrow>
      session.status (pollStatus_resume r s) = Some js \<and>
      (JobStatus.status js = Pending \<or> JobStatus.status js = JobDownloading \<longrightarrow>
         state (pollStatus_resume r s) = state s \<and>
         session.error (pollStatus_resume r s) = session.error s) \<and>
      (JobStatus.status js = JobCompleted \<longrightarrow>
         state (pollStatus_resume r s) = Completed \<and>
         session.error (pollStatus_resume r s) = session.error s) \<and>
      (JobStatus.status js = JobError \<longrightarrow>
         state (pollStatus_resume r s) = Error \<and>
         session.error (pollStatus_resume r s) =
           Some (js_or (JobStatus.error js) ''Download failed''))"
    by (auto simp: pollStatus_resume_def session_defs Let_def)
  have c: "(\<forall>j. r \<noteq> Ok2xx (Json j)) \<longrightarrow>
      state (pollStatus_resume r s) = Error \<and>
      session.status (pollStatus_resume r s) = session.status s \<and>
      session.error (pollStatus_resume r s) = Some ''Failed to check status''"
  proof (cases r)
    case (FetchFailed m)
    then show ?thesis by (simp add: pollStatus_resume_def session_defs)
  next
    case (Ok2xx b)
    then show ?thesis by (cases b) (simp_all add: pollStatus_resume_def session_defs)
  next
    case (NotOk b)
    then show ?thesis by (simp add: pollStatus_resume_def session_defs)
  qed
  from a b c show ?thesis by blast
qed

text \<open>Claim C4 at a late reply that reports \<open>downloading\<close>, and a late failure, on a reset page.\<close>

theorem late_reply_effect_witness:
  "pollStatus_resume
     (Ok2xx (Json \<lparr>JobStatus.job_id = ''J1'', JobStatus.status = JobDownloading, progress = [],
         song_count = 3, download_url = None, JobStatus.error = None\<rparr>)) (handleReset initial) =
   \<lparr>url = [], state = Idle, jobId = None,
    session.status = Some \<lparr>JobStatus.job_id = ''J1'', JobStatus.status = JobDownloading, progress = [],
         song_count = 3, download_url = None, JobStatus.error = None\<rparr>,
    session.error = None\<rparr> \<and>
   state (pollStatus_resume (NotOk (Json (Body Undefined))) (handleReset initial)) = Error"
proof -
  let ?js = "\<lparr>JobStatus.job_id = ''J1'', JobStatus.status = JobDownloading, progress = [],
         song_count = 3, download_url = None, JobStatus.error = None\<rparr>"
  have n: "\<forall>j. (NotOk (Json (Body Undefined)) :: JobStatus http_reply) \<noteq> Ok2xx (Json j)"
    by simp
  show ?thesis
    using n late_reply_effect [of "Ok2xx (Json ?js)" "handleReset initial" ?js]
      late_reply_effect [of "NotOk (Json (Body Undefined))" "handleReset initial"]
    by (cases "pollStatus_resume (Ok2xx (Json ?js)) (handleReset initial)")
       (simp add: handleReset_def session_defs initial_def)
qed

subsection \<open>Sessions reachable from the initial one\<close>

lemma pollStatus_resume_state:
  "state (pollStatus_resume r s) = state s \<or> state (pollStatus_resume r s) = Completed \<or>
   state (pollStatus_resume r s) = Error"
  by (simp add: pollStatus_resume_def session_defs Let_def split: sum.splits)

lemma pollStatus_resume_jobId: "jobId (pollStatus_resume r s) = jobId s"
  by (simp add: pollStatus_resume_def session_defs Let_def split: sum.splits)

lemma handleSubmit_resume_state:
  "state (handleSubmit_resume r s) = Downloading \<or> state (handleSubmit_resume r s) = Error"
  by (simp add: handleSubmit_resume_def session_defs split: sum.splits)

lemma step_idle_without_job: "idle_without_job s \<Longrightarrow> idle_without_job (step api e s)"
proof (cases e)
  case (Typed v)
  assume "idle_without_job s"
  then show ?thesis using Typed by (simp add: idle_without_job_def session_defs)
next
  case Submit
  assume "idle_without_job s"
  then show ?thesis using Submit
    by (simp add: idle_without_job_def handleSubmit_begin_def session_defs)
next
  case (CreateReply r)
  show ?thesis using CreateReply handleSubmit_resume_state [of r s]
    by (auto simp: idle_without_job_def)
next
  case (PollTick r)
  assume "idle_without_job s"
  then show ?thesis
    using PollTick pollStatus_resume_state [of r s] pollStatus_resume_jobId [of r s]
    by (auto simp: idle_without_job_def pollStatus_def)
next
  case (LateReply r)
  assume "idle_without_job s"
  then show ?thesis
    using LateReply pollStatus_resume_state [of r s] pollStatus_resume_jobId [of r s]
    by (auto simp: idle_without_job_def)
next
  case Reset
  show ?thesis using Reset by (simp add: idle_without_job_def handleReset_def session_defs)
qed

lemma run_idle_without_job: "idle_without_job s \<Longrightarrow> idle_without_job (run api evs s)"
  by (induction evs arbitrary: s) (simp_all add: step_idle_without_job)

text \<open>
  Claim C3, as stated: in every state reachable from the initial one the job identifier
  is null whenever the state is idle or loading. \<open>handleSubmit\<close> sets the state to loading
  (line 31) and leaves the job identifier alone, and the form is shown in the error state
  (line 101): after a job has failed while polling, submitting again gives a session in
  loading that still holds the identifier of the failed job. Every event of the trace is
  one the page offers.
\<close>

theorem resubmit_keeps_job_identifier:
  "run_offered ''http://localhost:8000''
     [Typed ''https://open.spotify.com/playlist/abc123'',
      Submit,
      CreateReply (Ok2xx (Json \<lparr>DownloadResponse.job_id = ''J1'', message = ''started''\<rparr>)),
      PollTick (Ok2xx (Json \<lparr>JobStatus.job_id = ''J1'', JobStatus.status = JobError, progress = [],
         song_count = 0, download_url = None, JobStatus.error = Some ''no songs''\<rparr>)),
      Submit] initial =
   Some \<lparr>url = ''https://open.spotify.com/playlist/abc123'', state = Loading, jobId = Some ''J1'',
      session.status = Some \<lparr>JobStatus.job_id = ''J1'', JobStatus.status = JobError, progress = [],
         song_count = 0, download_url = None, JobStatus.error = Some ''no songs''\<rparr>,
      session.error = None\<rparr>"
  by (simp add: machine_eval session_defs valid_eval)

text \<open>
  Claim C3, amended: in every state reachable from the initial idle state by any sequence
  of typing, submit, creation reply, poll tick, late poll reply and reset events, the
  session holds a job identifier only when the machine state is loading, downloading,
  completed or error; the job identifier is null whenever the state is idle.
\<close>

theorem job_identifier_invariant:
  "(state (run api evs initial) = Idle \<longrightarrow> jobId (run api evs initial) = None) \<and>
   (jobId (run api evs initial) \<noteq> None \<longrightarrow>
      state (run api evs initial) = Loading \<or> state (run api evs initial) = Downloading \<or>
      state (run api evs initial) = Completed \<or> state (run api evs initial) = Error)"
proof -
  have "idle_without_job initial" by (simp add: idle_without_job_def initial_def)
  then have "idle_without_job (run api evs initial)" by (rule run_idle_without_job)
  then show ?thesis
    by (cases "state (run api evs initial)") (auto simp: idle_without_job_def)
qed

text \<open>Claim C3 at a page that is downloading job \<open>J1\<close>, and at the same page after completion and reset.\<close>

theorem job_identifier_invariant_witness:
  "state (run ''http://localhost:8000''
     [Typed ''https://open.spotify.com/playlist/abc123'',
      Submit,
      CreateReply (Ok2xx (Json \<lparr>DownloadResponse.job_id = ''J1'', message = ''started''\<rparr>))]
     initial) = Downloading \<and>
   jobId (run ''http://localhost:8000''
     [Typed ''https://open.spotify.com/playlist/abc123'',
      Submit,
      CreateReply (Ok2xx (Json \<lparr>DownloadResponse.job_id = ''J1'', message = ''started''\<rparr>))]
     initial) = Some ''J1'' \<and>
   state (run ''http://localhost:8000''
     [Typed ''https://open.spotify.com/playlist/abc123'',
      Submit,
      CreateReply (Ok2xx (Json \<lparr>DownloadResponse.job_id = ''J1'', message = ''started''\<rparr>)),
      PollTick (Ok2xx (Json \<lparr>JobStatus.job_id = ''J1'', JobStatus.status = JobCompleted, progress = [],
         song_count = 0, download_url = None, JobStatus.error = None\<rparr>)),
      Reset] initial) = Idle \<and>
   jobId (run ''http://localhost:8000''
     [Typed ''https://open.spotify.com/playlist/abc123'',
      Submit,
      CreateReply (Ok2xx (Json \<lparr>DownloadResponse.job_id = ''J1'', message = ''started''\<rparr>)),
      PollTick (Ok2xx (Json \<lparr>JobStatus.job_id = ''J1'', JobStatus.status = JobCompleted, progress = [],
         song_count = 0, download_url = None, JobStatus.error = None\<rparr>)),
      Reset] initial) = None"
  using
    job_identifier_invariant [of "''http://localhost:8000''"
      "[Typed ''https://open.spotify.com/playlist/abc123'',
        Submit,
        CreateReply (Ok2xx (Json \<lparr>DownloadResponse.job_id = ''J1'', message = ''started''\<rparr>))]"]
    job_identifier_invariant [of "''http://localhost:8000''"
      "[Typed ''https://open.spotify.com/playlist/abc123'',
        Submit,
        CreateReply (Ok2xx (Json \<lparr>DownloadResponse.job_id = ''J1'', message = ''started''\<rparr>)),
        PollTick (Ok2xx (Json \<lparr>JobStatus.job_id = ''J1'', JobStatus.status = JobCompleted,
          progress = [], song_count = 0, download_url = None, JobStatus.error = None\<rparr>)),
        Reset]"]
  by (simp add: machine_eval session_defs valid_eval)

subsection \<open>Poll requests\<close>






subsection \<open>Reset and download\<close>

text \<open>
  Claim C8: reset, from any state, returns the machine to idle and clears the submitted
  URL, the job identifier, the cached snapshot and the error message: the session is the
  initial one again.
\<close>

theorem reset_clears_session:
  "handleReset s = initial \<and>
   url (handleReset s) = [] \<and> state (handleReset s) = Idle \<and> jobId (handleReset s) = None \<and>
   session.status (handleReset s) = None \<and> session.error (handleReset s) = None \<and>
   step api Reset s = initial"
  by (simp add: handleReset_def session_defs initial_def)

text \<open>
  Claim C9: for every job identifier \<open>j\<close> the download reference is the configured base
  address followed by \<open>/api/download/\<close>, \<open>j\<close> and \<open>/zip\<close>; it is a function of the two
  strings alone (\<open>getDownloadUrl\<close> takes no reply and sends no request). The base address
  is the configured one when it is set and not empty, and \<open>http://localhost:8000\<close>
  otherwise. For \<open>J1\<close> the path is \<open>/api/download/J1/zip\<close>. The download button opens the
  reference of the session's job identifier, and nothing when there is none.
\<close>

theorem download_reference:
  "getDownloadUrl base j = base @ ''/api/download/'' @ j @ ''/zip'' \<and>
   getDownloadUrl base ''J1'' = base @ ''/api/download/J1/zip'' \<and>
   (base \<noteq> [] \<longrightarrow>
      API_URL (Some base) = base \<and>
      getDownloadUrl (API_URL (Some base)) j = base @ ''/api/download/'' @ j @ ''/zip'') \<and>
   API_URL None = ''http://localhost:8000'' \<and>
   API_URL (Some []) = ''http://localhost:8000'' \<and>
   getDownloadUrl (API_URL None) j = ''http://localhost:8000/api/download/'' @ j @ ''/zip'' \<and>
   (jobId s = Some j \<and> j \<noteq> [] \<longrightarrow>
      handleDownload base s = [base @ ''/api/download/'' @ j @ ''/zip'']) \<and>
   (jobId s = None \<or> jobId s = Some [] \<longrightarrow> handleDownload base s = [])"
  by (auto simp: getDownloadUrl_def API_URL_def js_or_def handleDownload_def truthy_def)

text \<open>
  Claim C9 at a configured base address and job \<open>J1\<close>, and at the download button of a
  completed page that holds job \<open>J7\<close>.
\<close>

theorem download_reference_witness:
  "getDownloadUrl (API_URL (Some ''https://api.example.org'')) ''J1'' =
     ''https://api.example.org/api/download/J1/zip'' \<and>
   handleDownload ''http://localhost:8000''
     \<lparr>url = ''https://open.spotify.com/playlist/abc123'', state = Completed, jobId = Some ''J7'',
      session.status = None, session.error = None\<rparr> =
     [''http://localhost:8000/api/download/J7/zip''] \<and>
   handleDownload ''http://localhost:8000'' initial = []"
  using
    download_reference [of "''https://api.example.org''" "''J1''"]
    download_reference [of "''http://localhost:8000''" "''J7''"
      "\<lparr>url = ''https://open.spotify.com/playlist/abc123'', state = Completed, jobId = Some ''J7'',
      session.status = None, session.error = None\<rparr>"]
    download_reference [of "''http://localhost:8000''" _ initial]
  by (simp add: initial_def)

end
